theory Spec2Isabelle
  imports Main
begin

section \<open>Data model\<close>

text \<open>
  The point-of-sale application keeps its data in relational tables behind an ORM.
  A table is modelled as the list of its rows in storage order. Monetary amounts
  are whole rupiah and stock counters are integers; both are modelled as unbounded
  \<open>int\<close>. Identifiers are strings. A field that a JSON body may leave out is an
  \<open>option\<close>. The model follows the request handlers; checks that only the database
  schema declares (foreign keys, enumerated columns, uniqueness) are not part of them,
  and every database call is taken to succeed.
\<close>

datatype PaymentStatus = PENDING | PAID | FAILED | EXPIRED

datatype InventoryLogType = SALE | RESTOCK | ADJUSTMENT | RETURN

datatype NotificationType = INFO | SUCCESS | WARNING | ERROR

record Product =
  p_id :: string
  p_name :: string
  stock :: int
  minStock :: int
  isActive :: bool
  categoryId :: string

record TransactionItem =
  productId :: string
  quantity :: int
  unitPrice :: int
  totalPrice :: int

record Transaction =
  t_id :: string
  transactionNumber :: string
  totalAmount :: int
  taxAmount :: int
  discountAmount :: int
  finalAmount :: int
  paymentMethod :: string
  paymentStatus :: PaymentStatus
  xenditPaymentId :: "string option"
  xenditInvoiceUrl :: "string option"
  cashierId :: string
  items :: "TransactionItem list"

record InventoryLog =
  l_productId :: string
  l_type :: InventoryLogType
  l_quantity :: int
  l_previousStock :: int
  l_newStock :: int
  l_reason :: string
  l_createdBy :: string

text \<open>
  A notification row carries the user, the title, the severity tag and the structured
  metadata that \<open>createNotification\<close> stores. The message column is a rendering of the
  same metadata as text (with locale dependent number formatting) and is left out.
\<close>

datatype Metadata =
    LowStockMeta string int
  | AmountMeta string int
  | FailedMeta string "string option"
  | InventoryMeta string int string

record Notification =
  n_userId :: string
  n_title :: string
  n_type :: NotificationType
  n_metadata :: Metadata

record db =
  users :: "string list"
  products :: "Product list"
  transactions :: "Transaction list"
  inventoryLogs :: "InventoryLog list"
  notifications :: "Notification list"

section \<open>Table operations\<close>

text \<open>
  \<open>findUnique\<close> on a primary key returns the row with that key, \<open>update\<close> with a
  unique \<open>where\<close> rewrites that same row, \<open>create\<close> appends a row.
\<close>

definition findUnique_product :: "Product list \<Rightarrow> string \<Rightarrow> Product option" where
  "findUnique_product ps pid = List.find (\<lambda>p. p_id p = pid) ps"

definition findUnique_transaction :: "Transaction list \<Rightarrow> string \<Rightarrow> Transaction option" where
  "findUnique_transaction ts tid = List.find (\<lambda>t. t_id t = tid) ts"

fun update_first :: "('a \<Rightarrow> bool) \<Rightarrow> ('a \<Rightarrow> 'a) \<Rightarrow> 'a list \<Rightarrow> 'a list" where
  "update_first P f [] = []"
| "update_first P f (x # xs) = (if P x then f x # xs else x # update_first P f xs)"

text \<open>\<open>data: { stock: { decrement: q } }\<close> subtracts from the stored value.\<close>

definition product_decrement :: "string \<Rightarrow> int \<Rightarrow> Product list \<Rightarrow> Product list" where
  "product_decrement pid q ps =
     update_first (\<lambda>p. p_id p = pid) (\<lambda>p. p\<lparr>stock := stock p - q\<rparr>) ps"

text \<open>\<open>data: { stock: v }\<close> overwrites the stored value.\<close>

definition product_set_stock :: "string \<Rightarrow> int \<Rightarrow> Product list \<Rightarrow> Product list" where
  "product_set_stock pid v ps =
     update_first (\<lambda>p. p_id p = pid) (\<lambda>p. p\<lparr>stock := v\<rparr>) ps"

definition transaction_update ::
  "string \<Rightarrow> (Transaction \<Rightarrow> Transaction) \<Rightarrow> Transaction list \<Rightarrow> Transaction list" where
  "transaction_update tid f ts = update_first (\<lambda>t. t_id t = tid) f ts"

definition inventoryLog_create :: "InventoryLog \<Rightarrow> db \<Rightarrow> db" where
  "inventoryLog_create l s = s\<lparr>inventoryLogs := inventoryLogs s @ [l]\<rparr>"

section \<open>Notifications\<close>

definition createNotification ::
  "string \<Rightarrow> string \<Rightarrow> NotificationType \<Rightarrow> Metadata \<Rightarrow> db \<Rightarrow> db" where
  "createNotification userId title ty meta s =
     s\<lparr>notifications := notifications s @
        [\<lparr>n_userId = userId, n_title = title, n_type = ty, n_metadata = meta\<rparr>]\<rparr>"

definition notifyLowStock :: "string \<Rightarrow> string \<Rightarrow> int \<Rightarrow> db \<Rightarrow> db" where
  "notifyLowStock userId productName currentStock =
     createNotification userId ''Low Stock Alert'' WARNING (LowStockMeta productName currentStock)"


definition notifyPaymentReceived :: "string \<Rightarrow> string \<Rightarrow> int \<Rightarrow> db \<Rightarrow> db" where
  "notifyPaymentReceived userId txn amount =
     createNotification userId ''Payment Received'' SUCCESS (AmountMeta txn amount)"

definition notifyPaymentFailed :: "string \<Rightarrow> string \<Rightarrow> string option \<Rightarrow> db \<Rightarrow> db" where
  "notifyPaymentFailed userId txn why =
     createNotification userId ''Payment Failed'' ERROR (FailedMeta txn why)"

definition notifyInventoryUpdate :: "string \<Rightarrow> string \<Rightarrow> int \<Rightarrow> string \<Rightarrow> db \<Rightarrow> db" where
  "notifyInventoryUpdate userId productName q ty =
     createNotification userId ''Inventory Updated'' INFO (InventoryMeta productName q ty)"

section \<open>JavaScript truthiness on optional strings\<close>

definition truthy :: "string option \<Rightarrow> bool" where
  "truthy v = (case v of None \<Rightarrow> False | Some x \<Rightarrow> x \<noteq> [])"

text \<open>\<open>a || b\<close>\<close>

definition js_or :: "string option \<Rightarrow> string option \<Rightarrow> string option" where
  "js_or a b = (if truthy a then a else b)"

section \<open>Webhook handler (POST /api/webhooks/xendit)\<close>

record WebhookBody =
  b_external_id :: "string option"
  b_externalId :: "string option"
  b_status :: "string option"
  b_id :: "string option"

datatype WebhookResponse = Received | WebhookInternalError

text \<open>
  \<open>externalId.match(/^txn-([^-]+)-/)\<close>: the text starts with \<open>txn-\<close>, then comes a
  non-empty run of characters other than the dash, then a dash; the run is the result.
\<close>

definition extract_transactionId :: "string \<Rightarrow> string option" where
  "extract_transactionId ext =
     (if take 4 ext = ''txn-'' then
        (let rest = drop 4 ext;
             grp = takeWhile (\<lambda>c. c \<noteq> CHR ''-'') rest
         in if grp \<noteq> [] \<and> dropWhile (\<lambda>c. c \<noteq> CHR ''-'') rest \<noteq> [] then Some grp else None)
      else None)"

text \<open>
  The \<open>OR\<close> filter of the lookup. The clause on the extracted id is only there when the
  pattern matched; a clause whose value is \<open>undefined\<close> (the body has no \<open>id\<close>) filters
  nothing in.
\<close>

definition webhook_where :: "string option \<Rightarrow> string \<Rightarrow> string option \<Rightarrow> Transaction \<Rightarrow> bool" where
  "webhook_where transactionId externalId bid t =
     ((case transactionId of Some tid \<Rightarrow> t_id t = tid | None \<Rightarrow> False)
      \<or> xenditPaymentId t = Some externalId
      \<or> (case bid of Some i \<Rightarrow> xenditPaymentId t = Some i | None \<Rightarrow> False))"

definition webhook_findFirst :: "Transaction list \<Rightarrow> string \<Rightarrow> string option \<Rightarrow> Transaction option" where
  "webhook_findFirst ts externalId bid =
     List.find (webhook_where (extract_transactionId externalId) externalId bid) ts"

definition webhook_map_status :: "string option \<Rightarrow> PaymentStatus" where
  "webhook_map_status st =
     (if st = Some ''PAID'' \<or> st = Some ''SETTLED'' \<or> st = Some ''SUCCEEDED'' then PAID
      else if st = Some ''FAILED'' then FAILED
      else if st = Some ''EXPIRED'' then EXPIRED
      else PENDING)"

definition sale_reason :: "string \<Rightarrow> string" where
  "sale_reason txn = ''Sale - Transaction '' @ txn"

definition webhook_sale_item :: "Transaction \<Rightarrow> TransactionItem \<Rightarrow> db \<Rightarrow> db" where
  "webhook_sale_item t item s =
     (case findUnique_product (products s) (productId item) of
        None \<Rightarrow> s
      | Some product \<Rightarrow>
          (let s1 = s\<lparr>products := product_decrement (productId item) (quantity item) (products s)\<rparr>;
               s2 = inventoryLog_create
                      \<lparr>l_productId = productId item, l_type = SALE, l_quantity = quantity item,
                       l_previousStock = stock product,
                       l_newStock = stock product - quantity item,
                       l_reason = sale_reason (transactionNumber t),
                       l_createdBy = cashierId t\<rparr> s1;
               newStock = stock product - quantity item
           in if newStock \<le> minStock product
              then notifyLowStock (cashierId t) (p_name product) newStock s2
              else s2))"

definition webhook_POST :: "WebhookBody \<Rightarrow> db \<Rightarrow> WebhookResponse \<times> db" where
  "webhook_POST body s =
     (let externalId = js_or (b_external_id body) (b_externalId body);
          status = b_status body;
          bid = b_id body
      in if \<not> truthy externalId then (Received, s)
         else
           (case webhook_findFirst (transactions s) (the externalId) bid of
              None \<Rightarrow> (Received, s)
            | Some t \<Rightarrow>
                (let pstatus = webhook_map_status status;
                     s1 = s\<lparr>transactions := transaction_update (t_id t)
                            (\<lambda>r. r\<lparr>paymentStatus := pstatus,
                                     xenditPaymentId := js_or bid externalId\<rparr>)
                            (transactions s)\<rparr>
                 in if pstatus = PAID \<and> paymentStatus t \<noteq> PAID then
                      (case findUnique_transaction (transactions s1) (t_id t) of
                         None \<Rightarrow> (Received, s1)
                       | Some transactionWithItems \<Rightarrow>
                           (Received,
                            notifyPaymentReceived (cashierId t) (transactionNumber t) (finalAmount t)
                              (fold (webhook_sale_item t) (items transactionWithItems) s1)))
                    else if pstatus = FAILED then
                      (Received,
                       notifyPaymentFailed (cashierId t) (transactionNumber t) status s1)
                    else (Received, s1))))"

section \<open>Synchronous status check (POST /api/payments/check)\<close>




definition check_sale_item :: "Transaction \<Rightarrow> TransactionItem \<Rightarrow> db \<Rightarrow> db" where
  "check_sale_item t item s =
     (case findUnique_product (products s) (productId item) of
        None \<Rightarrow> s
      | Some product \<Rightarrow>
          (let previousStock = stock product;
               newStock = previousStock - quantity item;
               s1 = s\<lparr>products := product_set_stock (productId item) newStock (products s)\<rparr>;
               s2 = inventoryLog_create
                      \<lparr>l_productId = productId item, l_type = SALE, l_quantity = quantity item,
                       l_previousStock = previousStock,
                       l_newStock = newStock,
                       l_reason = sale_reason (transactionNumber t),
                       l_createdBy = cashierId t\<rparr> s1
           in if newStock \<le> minStock product
              then notifyLowStock (cashierId t) (p_name product) newStock s2
              else s2))"


section \<open>Transaction creation (POST /api/transactions)\<close>

record ItemRequest =
  rq_productId :: string
  rq_quantity :: int
  rq_unitPrice :: int
  rq_totalPrice :: int






text \<open>
  The stock loop of the creation handler. A missing product throws: the loop stops with
  the error message, and what it wrote before stays written.
\<close>

fun create_sale_items :: "string \<Rightarrow> string \<Rightarrow> ItemRequest list \<Rightarrow> db \<Rightarrow> string option \<times> db" where
  "create_sale_items cashier txn [] s = (None, s)"
| "create_sale_items cashier txn (item # rest) s =
     (case findUnique_product (products s) (rq_productId item) of
        None \<Rightarrow> (Some (''Product '' @ rq_productId item @ '' not found''), s)
      | Some product \<Rightarrow>
          (let qty = rq_quantity item;
               previousStock = stock product;
               newStock = previousStock - qty;
               s1 = s\<lparr>products := product_decrement (rq_productId item) qty (products s)\<rparr>;
               s2 = inventoryLog_create
                      \<lparr>l_productId = rq_productId item, l_type = SALE, l_quantity = rq_quantity item,
                       l_previousStock = previousStock,
                       l_newStock = newStock,
                       l_reason = sale_reason txn,
                       l_createdBy = cashier\<rparr> s1;
               s3 = (if newStock \<le> minStock product
                     then notifyLowStock cashier (p_name product) newStock s2
                     else s2)
           in create_sale_items cashier txn rest s3))"

text \<open>
  The generated row id and the generated transaction number (time stamp and random
  suffix) are parameters of the handler.
\<close>




section \<open>Inventory adjustment (POST /api/inventory)\<close>

record Adjustment =
  a_productId :: string
  a_newStock :: "int option"
  a_reason :: string

record AdjustmentResult =
  r_productId :: string
  r_previousStock :: int
  r_newStock :: int
  r_stockDifference :: int

datatype AdjustResponse =
    AdjustUnauthorized
  | AdjustBadRequest string
  | AdjustNotFound string
  | AdjustSuccess "AdjustmentResult list"

text \<open>
  The loop over the batch, with the results pushed so far. A malformed entry or an
  unknown product returns from the handler at once; \<open>a_newStock\<close> is \<open>None\<close> when the
  entry's \<open>newStock\<close> is not a number.
\<close>

fun adjust_loop :: "string \<Rightarrow> Adjustment list \<Rightarrow> AdjustmentResult list \<Rightarrow> db \<Rightarrow> AdjustResponse \<times> db" where
  "adjust_loop uid [] results s = (AdjustSuccess results, s)"
| "adjust_loop uid (adjustment # rest) results s =
     (if a_productId adjustment = [] \<or> a_newStock adjustment = None \<or> a_reason adjustment = [] then
        (AdjustBadRequest ''Product ID, new stock, and reason are required for each adjustment'', s)
      else
        (case findUnique_product (products s) (a_productId adjustment) of
           None \<Rightarrow> (AdjustNotFound (''Product '' @ a_productId adjustment @ '' not found''), s)
         | Some product \<Rightarrow>
             (let newStock = the (a_newStock adjustment);
                  previousStock = stock product;
                  stockDifference = newStock - previousStock;
                  updateType = (if stockDifference > 0 then RESTOCK else ADJUSTMENT);
                  s1 = s\<lparr>products := product_set_stock (a_productId adjustment) newStock (products s)\<rparr>;
                  s2 = inventoryLog_create
                         \<lparr>l_productId = a_productId adjustment,
                          l_type = updateType,
                          l_quantity = abs stockDifference,
                          l_previousStock = previousStock,
                          l_newStock = newStock,
                          l_reason = a_reason adjustment,
                          l_createdBy = uid\<rparr> s1;
                  s3 = notifyInventoryUpdate uid (p_name product) (abs stockDifference)
                         (if stockDifference > 0 then ''RESTOCK'' else ''ADJUSTMENT'') s2;
                  s4 = (if newStock \<le> minStock product
                        then notifyLowStock uid (p_name product) newStock s3
                        else s3)
              in adjust_loop uid rest
                   (results @ [\<lparr>r_productId = a_productId adjustment,
                                 r_previousStock = previousStock,
                                 r_newStock = newStock,
                                 r_stockDifference = stockDifference\<rparr>]) s4)))"

definition inventory_POST :: "string option \<Rightarrow> Adjustment list \<Rightarrow> db \<Rightarrow> AdjustResponse \<times> db" where
  "inventory_POST session adjustments s =
     (case session of
        None \<Rightarrow> (AdjustUnauthorized, s)
      | Some uid \<Rightarrow>
          if adjustments = [] then (AdjustBadRequest ''Adjustments array is required'', s)
          else adjust_loop uid adjustments [] s)"

text \<open>The inventory listing's own low-stock filter: \<open>stock <= minStock\<close>, active products.\<close>

definition inventory_GET_lowStock :: "Product list \<Rightarrow> Product list" where
  "inventory_GET_lowStock ps = filter (\<lambda>p. isActive p \<and> stock p \<le> minStock p) ps"

section \<open>Reports (GET /api/reports)\<close>

text \<open>The overview's \<open>lowStockCount\<close>: a count with \<open>stock: { lte: 5 }, isActive: true\<close>.\<close>

definition overview_lowStockCount :: "Product list \<Rightarrow> nat" where
  "overview_lowStockCount ps = length (filter (\<lambda>p. stock p \<le> 5 \<and> isActive p) ps)"

text \<open>
  The inventory tab's \<open>lowStockProducts\<close>: the same filter, narrowed to a category when
  the request names one, ordered by stock.
\<close>

definition inventory_lowStockProducts :: "string option \<Rightarrow> Product list \<Rightarrow> Product list" where
  "inventory_lowStockProducts cat ps =
     sort_key stock
       (filter (\<lambda>p. stock p \<le> 5 \<and> isActive p \<and> (if truthy cat then categoryId p = the cat else True)) ps)"

section \<open>Example data\<close>

text \<open>A small shop: two products, one cashier and one digital transaction of two lines.\<close>

definition demo_kopi :: Product where
  "demo_kopi = \<lparr>p_id = ''p1'', p_name = ''Kopi'', stock = 8, minStock = 5, isActive = True, categoryId = ''c1''\<rparr>"

definition demo_teh :: Product where
  "demo_teh = \<lparr>p_id = ''p2'', p_name = ''Teh'', stock = 20, minStock = 5, isActive = True, categoryId = ''c1''\<rparr>"

definition demo_items :: "TransactionItem list" where
  "demo_items = [\<lparr>productId = ''p1'', quantity = 3, unitPrice = 10000, totalPrice = 30000\<rparr>,
                 \<lparr>productId = ''p2'', quantity = 1, unitPrice = 5000, totalPrice = 5000\<rparr>]"

definition demo_transaction :: "PaymentStatus \<Rightarrow> Transaction" where
  "demo_transaction st =
     \<lparr>t_id = ''t1'', transactionNumber = ''TXN-1-A'', totalAmount = 35000, taxAmount = 0,
      discountAmount = 0, finalAmount = 35000, paymentMethod = ''XENDIT_QRIS'',
      paymentStatus = st, xenditPaymentId = Some ''inv1'', xenditInvoiceUrl = None,
      cashierId = ''u1'', items = demo_items\<rparr>"

definition demo_db :: "PaymentStatus \<Rightarrow> db" where
  "demo_db st = \<lparr>users = [''u1''], products = [demo_kopi, demo_teh],
                 transactions = [demo_transaction st], inventoryLogs = [], notifications = []\<rparr>"

definition demo_body :: "string \<Rightarrow> WebhookBody" where
  "demo_body st = \<lparr>b_external_id = Some ''txn-t1-1700000000'', b_externalId = None,
                    b_status = Some st, b_id = Some ''inv1''\<rparr>"




definition demo_batch :: "Adjustment list" where
  "demo_batch = [\<lparr>a_productId = ''p1'', a_newStock = Some 7, a_reason = ''recount''\<rparr>,
                 \<lparr>a_productId = ''px'', a_newStock = Some 1, a_reason = ''recount''\<rparr>,
                 \<lparr>a_productId = ''p2'', a_newStock = Some 3, a_reason = ''recount''\<rparr>]"


section \<open>Auxiliary lemmas\<close>

subsection \<open>Tables\<close>

lemma find_update_first_same:
  "(\<And>x. P x \<Longrightarrow> P (f x)) \<Longrightarrow> List.find P (update_first P f xs) = map_option f (List.find P xs)"
  by (induction xs) auto

lemma find_update_first_other:
  "(\<And>x. P x \<Longrightarrow> \<not> Q x) \<Longrightarrow> (\<And>x. Q (f x) = Q x) \<Longrightarrow>
     List.find Q (update_first P f xs) = List.find Q xs"
  by (induction xs) auto



lemma update_first_cong_found:
  "List.find P xs = Some x \<Longrightarrow> f x = g x \<Longrightarrow> update_first P f xs = update_first P g xs"
  by (induction xs) (auto split: if_splits)

lemma find_key_after_update:
  "List.find Q xs = Some t \<Longrightarrow> distinct (map key xs) \<Longrightarrow> Q (f t) \<Longrightarrow>
     List.find Q (update_first (\<lambda>r. key r = key t) f xs) = Some (f t)"
proof (induction xs)
  case Nil
  then show ?case by simp
next
  case (Cons x xs)
  show ?case
  proof (cases "Q x")
    case True
    with Cons.prems show ?thesis by simp
  next
    case False
    with Cons.prems have ft: "List.find Q xs = Some t" by simp
    then have "t \<in> set xs" by (auto simp: find_Some_iff)
    with Cons.prems have "key x \<noteq> key t" by auto
    with False Cons.IH ft Cons.prems show ?thesis by simp
  qed
qed

lemma find_unique_member:
  "t \<in> set xs \<Longrightarrow> distinct (map key xs) \<Longrightarrow> List.find (\<lambda>r. key r = key t) xs = Some t"
  by (induction xs) (auto simp: rev_image_eqI)


lemma length_update_first: "length (update_first P f xs) = length xs"
  by (induction xs) auto

subsection \<open>Stock updates and the sale loop\<close>


lemma set_stock_is_decrement:
  "findUnique_product ps pid = Some p \<Longrightarrow>
     product_set_stock pid (stock p - q) ps = product_decrement pid q ps"
  unfolding findUnique_product_def product_set_stock_def product_decrement_def
  by (rule update_first_cong_found) auto


lemma check_sale_item_eq: "check_sale_item t item s = webhook_sale_item t item s"
  by (simp add: check_sale_item_def webhook_sale_item_def Let_def set_stock_is_decrement
      split: option.splits)


lemma webhook_sale_item_transactions:
  "transactions (webhook_sale_item t item s) = transactions s"
  by (simp add: webhook_sale_item_def Let_def inventoryLog_create_def notifyLowStock_def
      createNotification_def split: option.splits)

lemma webhook_sale_item_users:
  "users (webhook_sale_item t item s) = users s"
  by (simp add: webhook_sale_item_def Let_def inventoryLog_create_def notifyLowStock_def
      createNotification_def split: option.splits)


lemma fold_sale_transactions: "transactions (fold (webhook_sale_item t) its s) = transactions s"
  by (induction its arbitrary: s) (simp_all add: webhook_sale_item_transactions)

lemma fold_sale_users: "users (fold (webhook_sale_item t) its s) = users s"
  by (induction its arbitrary: s) (simp_all add: webhook_sale_item_users)





subsection \<open>The webhook's transaction update\<close>

lemma notify_transactions [simp]:
  "transactions (createNotification u ti ty m s) = transactions s"
  "products (createNotification u ti ty m s) = products s"
  "inventoryLogs (createNotification u ti ty m s) = inventoryLogs s"
  "users (createNotification u ti ty m s) = users s"
  "notifications (createNotification u ti ty m s) =
     notifications s @ [\<lparr>n_userId = u, n_title = ti, n_type = ty, n_metadata = m\<rparr>]"
  by (simp_all add: createNotification_def)

lemma webhook_POST_transactions:
  assumes "js_or (b_external_id body) (b_externalId body) = Some ext" and "ext \<noteq> []"
    and "webhook_findFirst (transactions s) ext (b_id body) = Some t"
  shows "transactions (snd (webhook_POST body s)) =
     transaction_update (t_id t)
       (\<lambda>r. r\<lparr>paymentStatus := webhook_map_status (b_status body),
                xenditPaymentId := js_or (b_id body) (Some ext)\<rparr>) (transactions s)"
  using assms
  by (simp add: webhook_POST_def Let_def truthy_def notifyPaymentReceived_def
      notifyPaymentFailed_def fold_sale_transactions split: option.splits)

lemma findUnique_after_update:
  assumes "webhook_findFirst ts ext bid = Some t" and "distinct (map t_id ts)"
    and that: "t_id (f t) = t_id t"
  shows "findUnique_transaction (transaction_update (t_id t) f ts) (t_id t) = Some (f t)"
proof -
  from assms(1) have "t \<in> set ts"
    by (auto simp: webhook_findFirst_def find_Some_iff)
  then have "List.find (\<lambda>r. t_id r = t_id t) ts = Some t"
    using assms(2) by (rule find_unique_member)
  then show ?thesis
    unfolding findUnique_transaction_def transaction_update_def
    using assms(2) that by (intro find_key_after_update) auto
qed

lemma demo_extract: "extract_transactionId ''txn-t1-1700000000'' = Some ''t1''"
  by (simp add: extract_transactionId_def)

lemma demo_find: "webhook_findFirst (transactions (demo_db st)) ''txn-t1-1700000000'' (Some ''inv1'') = Some (demo_transaction st)"
  by (simp add: webhook_findFirst_def demo_db_def demo_extract webhook_where_def demo_transaction_def)

subsection \<open>Inventory log of the sale loop, and the creation loop\<close>




subsection \<open>Sorting\<close>

lemma sort_key_map_commute:
  "(\<And>x. k (g x) = k x) \<Longrightarrow> sort_key k (map g xs) = map g (sort_key k xs)"
proof (induction xs)
  case Nil
  then show ?case by simp
next
  case (Cons x xs)
  have ins: "insort_key k (g x) (map g ys) = map g (insort_key k x ys)" for ys
    using Cons.prems by (induction ys) auto
  show ?case using Cons by (simp add: ins)
qed

subsection \<open>The creation handler\<close>




subsection \<open>Looking a transaction up again after an update\<close>

lemma map_key_update_first:
  "(\<And>x. key (f x) = key x) \<Longrightarrow> map key (update_first P f xs) = map key xs"
  by (induction xs) auto







lemma distinct_transaction_update:
  "(\<And>r. t_id (f r) = t_id r) \<Longrightarrow>
     distinct (map t_id (transaction_update tid f ts)) = distinct (map t_id ts)"
  by (simp add: transaction_update_def map_key_update_first)




subsection \<open>The handlers on a transition into PAID\<close>
















subsection \<open>External ids of created transactions\<close>







subsection \<open>Triggers that do not run the sale loop\<close>




lemma webhook_sale_item_set_transactions:
  "webhook_sale_item t i (s\<lparr>transactions := T\<rparr>) = (webhook_sale_item t i s)\<lparr>transactions := T\<rparr>"
  by (simp add: webhook_sale_item_def Let_def inventoryLog_create_def notifyLowStock_def
      createNotification_def split: option.splits)

lemma fold_sale_set_transactions:
  "fold (webhook_sale_item t) its (s\<lparr>transactions := T\<rparr>) =
     (fold (webhook_sale_item t) its s)\<lparr>transactions := T\<rparr>"
  by (induction its arbitrary: s) (simp_all add: webhook_sale_item_set_transactions)

lemma paid_state_parts:
  "products (notifyPaymentReceived c n a (fold (webhook_sale_item t) its (s\<lparr>transactions := T\<rparr>))) =
     products (notifyPaymentReceived c n a (fold (webhook_sale_item t) its s))"
  "inventoryLogs (notifyPaymentReceived c n a (fold (webhook_sale_item t) its (s\<lparr>transactions := T\<rparr>))) =
     inventoryLogs (notifyPaymentReceived c n a (fold (webhook_sale_item t) its s))"
  "notifications (notifyPaymentReceived c n a (fold (webhook_sale_item t) its (s\<lparr>transactions := T\<rparr>))) =
     notifications (notifyPaymentReceived c n a (fold (webhook_sale_item t) its s))"
  by (simp_all add: fold_sale_set_transactions notifyPaymentReceived_def)







subsection \<open>The adjustment loop\<close>

lemma findUnique_product_set_stock:
  "findUnique_product (product_set_stock pid v ps) pid' =
     map_option (\<lambda>p. if pid' = pid then p\<lparr>stock := v\<rparr> else p) (findUnique_product ps pid')"
proof (cases "pid' = pid")
  case True
  then show ?thesis
    by (simp add: findUnique_product_def product_set_stock_def find_update_first_same)
next
  case False
  then have "List.find (\<lambda>p. p_id p = pid') (update_first (\<lambda>p. p_id p = pid) (\<lambda>p. p\<lparr>stock := v\<rparr>) ps)
      = List.find (\<lambda>p. p_id p = pid') ps"
    by (intro find_update_first_other) auto
  with False show ?thesis
    by (simp add: findUnique_product_def product_set_stock_def option.map_ident)
qed

lemma product_exists_set_stock:
  "(findUnique_product (product_set_stock pid v ps) pid' = None) = (findUnique_product ps pid' = None)"
  by (simp add: findUnique_product_set_stock)

lemma product_exists_adjusted:
  "(findUnique_product (fold (\<lambda>a. product_set_stock (a_productId a) (the (a_newStock a))) as ps) pid = None)
     = (findUnique_product ps pid = None)"
  by (induction as arbitrary: ps) (simp_all add: product_exists_set_stock)

text \<open>A batch of well-formed adjustments of known products runs to its end.\<close>

lemma adjust_loop_valid:
  "\<forall>a \<in> set as. a_productId a \<noteq> [] \<and> a_newStock a \<noteq> None \<and> a_reason a \<noteq> []
       \<and> findUnique_product (products s) (a_productId a) \<noteq> None \<Longrightarrow>
   \<exists>new s'. adjust_loop uid as results s = (AdjustSuccess (results @ new), s')
      \<and> map r_productId new = map a_productId as
      \<and> map r_newStock new = map (\<lambda>a. the (a_newStock a)) as
      \<and> products s' = fold (\<lambda>a. product_set_stock (a_productId a) (the (a_newStock a))) as (products s)
      \<and> length (inventoryLogs s') = length (inventoryLogs s) + length as
      \<and> transactions s' = transactions s"
proof (induction as arbitrary: results s)
  case Nil
  then show ?case by simp
next
  case (Cons a as)
  from Cons.prems obtain p v where
    p: "findUnique_product (products s) (a_productId a) = Some p" and v: "a_newStock a = Some v"
    and wf: "a_productId a \<noteq> []" "a_reason a \<noteq> []"
    by auto
  let ?d = "v - stock p"
  let ?s1 = "s\<lparr>products := product_set_stock (a_productId a) v (products s)\<rparr>"
  let ?s2 = "inventoryLog_create
               \<lparr>l_productId = a_productId a,
                l_type = (if ?d > 0 then RESTOCK else ADJUSTMENT),
                l_quantity = abs ?d, l_previousStock = stock p, l_newStock = v,
                l_reason = a_reason a, l_createdBy = uid\<rparr> ?s1"
  let ?s3 = "notifyInventoryUpdate uid (p_name p) (abs ?d)
               (if ?d > 0 then ''RESTOCK'' else ''ADJUSTMENT'') ?s2"
  let ?s4 = "if v \<le> minStock p then notifyLowStock uid (p_name p) v ?s3 else ?s3"
  let ?r = "\<lparr>r_productId = a_productId a, r_previousStock = stock p, r_newStock = v,
             r_stockDifference = ?d\<rparr>"
  have step: "adjust_loop uid (a # as) results s = adjust_loop uid as (results @ [?r]) ?s4"
    using p v wf by (simp add: Let_def)
  have pr4: "products ?s4 = product_set_stock (a_productId a) v (products s)"
    by (simp add: inventoryLog_create_def notifyInventoryUpdate_def notifyLowStock_def)
  have lg4: "length (inventoryLogs ?s4) = length (inventoryLogs s) + 1"
    by (simp add: inventoryLog_create_def notifyInventoryUpdate_def notifyLowStock_def)
  have tx4: "transactions ?s4 = transactions s"
    by (simp add: inventoryLog_create_def notifyInventoryUpdate_def notifyLowStock_def)
  have "\<forall>b \<in> set as. a_productId b \<noteq> [] \<and> a_newStock b \<noteq> None \<and> a_reason b \<noteq> []
       \<and> findUnique_product (products ?s4) (a_productId b) \<noteq> None"
    using Cons.prems unfolding pr4 by (simp add: product_exists_set_stock)
  from Cons.IH [OF this, of "results @ [?r]"] obtain new s' where
    ih: "adjust_loop uid as (results @ [?r]) ?s4 = (AdjustSuccess ((results @ [?r]) @ new), s')"
      "map r_productId new = map a_productId as"
      "map r_newStock new = map (\<lambda>a. the (a_newStock a)) as"
      "products s' = fold (\<lambda>a. product_set_stock (a_productId a) (the (a_newStock a))) as (products ?s4)"
      "length (inventoryLogs s') = length (inventoryLogs ?s4) + length as"
      "transactions s' = transactions ?s4"
    by blast
  have 1: "adjust_loop uid (a # as) results s = (AdjustSuccess (results @ (?r # new)), s')"
    using step ih(1) by simp
  have 2: "map r_productId (?r # new) = map a_productId (a # as)" using ih(2) by simp
  have 3: "map r_newStock (?r # new) = map (\<lambda>a. the (a_newStock a)) (a # as)"
    using ih(3) v by simp
  have 4: "products s' =
      fold (\<lambda>a. product_set_stock (a_productId a) (the (a_newStock a))) (a # as) (products s)"
    using ih(4) v by (simp add: pr4)
  have 5: "length (inventoryLogs s') = length (inventoryLogs s) + length (a # as)"
    using ih(5) lg4 by simp
  have 6: "transactions s' = transactions s" using ih(6) tx4 by simp
  from 1 2 3 4 5 6 show ?case by blast
qed

lemma adjust_loop_append:
  "adjust_loop uid as results s = (AdjustSuccess results', s') \<Longrightarrow>
     adjust_loop uid (as @ bs) results s = adjust_loop uid bs results' s'"
proof (induction as arbitrary: results s)
  case Nil
  then show ?case by simp
next
  case (Cons a as)
  show ?case
  proof (cases "a_productId a = [] \<or> a_newStock a = None \<or> a_reason a = []")
    case True
    with Cons.prems show ?thesis by simp
  next
    case False
    then obtain v where wf: "a_productId a \<noteq> []" "a_newStock a = Some v" "a_reason a \<noteq> []"
      by auto
    show ?thesis
    proof (cases "findUnique_product (products s) (a_productId a)")
      case None
      with wf Cons.prems show ?thesis by simp
    next
      case (Some p)
      with wf Cons.prems Cons.IH show ?thesis by (simp add: Let_def)
    qed
  qed
qed

section \<open>Verified properties\<close>

subsection \<open>Duplicate triggers\<close>



subsection \<open>Cash sales\<close>



subsection \<open>Triggers on a PAID transaction\<close>




subsection \<open>Webhook and status check compared\<close>




subsection \<open>A digital sale created as already paid\<close>



subsection \<open>Inventory adjustment batches\<close>

text \<open>
  C6 as stated (the valid entries of a batch apply and the unknown product is reported in
  a per-item result list) fails: for a batch of a valid entry, an unknown product and a
  second valid entry, the answer is the single not-found error, the first adjustment is
  applied and the one after the unknown product is not (its stock stays 20).
\<close>

theorem adjustment_batch_counterexample:
  "fst (inventory_POST (Some ''u1'') demo_batch (demo_db PENDING)) = AdjustNotFound ''Product px not found''
   \<and> map_option stock (findUnique_product (products (demo_db PENDING)) ''p2'') = Some 20
   \<and> map_option stock
        (findUnique_product (products (snd (inventory_POST (Some ''u1'') demo_batch (demo_db PENDING)))) ''p1'')
       = Some 7
   \<and> map_option stock
        (findUnique_product (products (snd (inventory_POST (Some ''u1'') demo_batch (demo_db PENDING)))) ''p2'')
       = Some 20"
  by (simp add: inventory_POST_def demo_batch_def demo_db_def findUnique_product_def
      product_set_stock_def demo_kopi_def demo_teh_def Let_def inventoryLog_create_def
      notifyInventoryUpdate_def notifyLowStock_def createNotification_def)

text \<open>
  C6, amended: When the entries of a batch before the first unknown product are well
  formed and name known products, those adjustments are applied and stay applied (each
  sets its product's stock and appends one inventory-log entry), the handler then answers
  with the single error \<open>Product <id> not found\<close>, and nothing after that entry is
  processed, whatever it is. The per-item results collected so far are dropped: the list
  of results is answered only when the whole (non-empty) batch runs through.
\<close>

theorem adjustment_batch_stops:
  assumes "\<forall>a \<in> set pre. a_productId a \<noteq> [] \<and> a_newStock a \<noteq> None \<and> a_reason a \<noteq> []
             \<and> findUnique_product (products s) (a_productId a) \<noteq> None"
    and "a_productId bad \<noteq> []" and "a_newStock bad \<noteq> None" and "a_reason bad \<noteq> []"
    and "findUnique_product (products s) (a_productId bad) = None"
  shows "\<exists>results s'.
       adjust_loop uid pre [] s = (AdjustSuccess results, s')
     \<and> map r_productId results = map a_productId pre
     \<and> map r_newStock results = map (\<lambda>a. the (a_newStock a)) pre
     \<and> inventory_POST (Some uid) (pre @ bad # post) s =
         (AdjustNotFound (''Product '' @ a_productId bad @ '' not found''), s')
     \<and> products s' =
         fold (\<lambda>a. product_set_stock (a_productId a) (the (a_newStock a))) pre (products s)
     \<and> length (inventoryLogs s') = length (inventoryLogs s) + length pre
     \<and> (pre \<noteq> [] \<longrightarrow> inventory_POST (Some uid) pre s = (AdjustSuccess results, s'))"
proof -
  from adjust_loop_valid [OF assms(1), of uid "[]"] obtain new s' where
    v: "adjust_loop uid pre [] s = (AdjustSuccess new, s')"
      "map r_productId new = map a_productId pre"
      "map r_newStock new = map (\<lambda>a. the (a_newStock a)) pre"
      "products s' = fold (\<lambda>a. product_set_stock (a_productId a) (the (a_newStock a))) pre (products s)"
      "length (inventoryLogs s') = length (inventoryLogs s) + length pre"
    by auto
  have miss: "findUnique_product (products s') (a_productId bad) = None"
    unfolding v(4) using assms(5) by (simp add: product_exists_adjusted)
  have "adjust_loop uid (pre @ bad # post) [] s = adjust_loop uid (bad # post) new s'"
    using v(1) by (rule adjust_loop_append)
  also have "\<dots> = (AdjustNotFound (''Product '' @ a_productId bad @ '' not found''), s')"
    using assms(2,3,4) miss by simp
  finally have "inventory_POST (Some uid) (pre @ bad # post) s =
      (AdjustNotFound (''Product '' @ a_productId bad @ '' not found''), s')"
    by (simp add: inventory_POST_def)
  moreover have "pre \<noteq> [] \<longrightarrow> inventory_POST (Some uid) pre s = (AdjustSuccess new, s')"
    using v(1) by (simp add: inventory_POST_def)
  ultimately show ?thesis using v by blast
qed

theorem adjustment_batch_stops_witness:
  "findUnique_product (products (demo_db PENDING)) ''p1'' \<noteq> None
   \<and> findUnique_product (products (demo_db PENDING)) ''px'' = None
   \<and> (\<exists>results s'. inventory_POST (Some ''u1'') demo_batch (demo_db PENDING) =
              (AdjustNotFound ''Product px not found'', s')
          \<and> inventory_POST (Some ''u1'') (take 1 demo_batch) (demo_db PENDING) =
              (AdjustSuccess results, s')
          \<and> map r_productId results = [''p1'']
          \<and> map r_newStock results = [7]
          \<and> products s' = [demo_kopi\<lparr>stock := 7\<rparr>, demo_teh]
          \<and> length (inventoryLogs s') = 1)"
proof -
  let ?a = "\<lparr>a_productId = ''p1'', a_newStock = Some 7, a_reason = ''recount''\<rparr>"
  let ?x = "\<lparr>a_productId = ''px'', a_newStock = Some 1, a_reason = ''recount''\<rparr>"
  let ?b = "\<lparr>a_productId = ''p2'', a_newStock = Some 3, a_reason = ''recount''\<rparr>"
  let ?s = "demo_db PENDING"
  have sp: "demo_batch = [?a] @ ?x # [?b]" by (simp add: demo_batch_def)
  have f1: "findUnique_product (products ?s) ''p1'' \<noteq> None"
    and fx: "findUnique_product (products ?s) ''px'' = None"
    by (simp_all add: findUnique_product_def demo_db_def demo_kopi_def demo_teh_def)
  have h1: "\<forall>a \<in> set [?a]. a_productId a \<noteq> [] \<and> a_newStock a \<noteq> None \<and> a_reason a \<noteq> []
             \<and> findUnique_product (products ?s) (a_productId a) \<noteq> None"
    using f1 by simp
  have h2: "a_productId ?x \<noteq> []" "a_newStock ?x \<noteq> None" "a_reason ?x \<noteq> []"
    "findUnique_product (products ?s) (a_productId ?x) = None"
    using fx by simp_all
  from adjustment_batch_stops [OF h1 h2, of "''u1''" "[?b]"] obtain results s' where
    r: "inventory_POST (Some ''u1'') ([?a] @ ?x # [?b]) ?s =
         (AdjustNotFound (''Product '' @ a_productId ?x @ '' not found''), s')"
      "products s' = fold (\<lambda>a. product_set_stock (a_productId a) (the (a_newStock a))) [?a] (products ?s)"
      "length (inventoryLogs s') = length (inventoryLogs ?s) + length [?a]"
    and q: "map r_productId results = map a_productId [?a]"
      "map r_newStock results = map (\<lambda>a. the (a_newStock a)) [?a]"
      "[?a] \<noteq> [] \<longrightarrow> inventory_POST (Some ''u1'') [?a] ?s = (AdjustSuccess results, s')"
    by blast
  have p: "fold (\<lambda>a. product_set_stock (a_productId a) (the (a_newStock a))) [?a] (products ?s)
      = [demo_kopi\<lparr>stock := 7\<rparr>, demo_teh]"
    by (simp add: product_set_stock_def demo_db_def demo_kopi_def demo_teh_def)
  have l: "length (inventoryLogs ?s) + length [?a] = 1" by (simp add: demo_db_def)
  have e: "inventory_POST (Some ''u1'') demo_batch ?s = (AdjustNotFound ''Product px not found'', s')"
    using r(1) by (simp add: sp)
  have d: "take 1 demo_batch = [?a]" by (simp add: demo_batch_def)
  have q': "inventory_POST (Some ''u1'') (take 1 demo_batch) ?s = (AdjustSuccess results, s')"
    "map r_productId results = [''p1'']" "map r_newStock results = [7]"
    using q unfolding d by simp_all
  from r(2,3) have "products s' = [demo_kopi\<lparr>stock := 7\<rparr>, demo_teh]" "length (inventoryLogs s') = 1"
    by (simp_all only: p l)
  with e f1 fx q' show ?thesis by auto
qed

subsection \<open>Webhooks that resolve no transaction\<close>




subsection \<open>The low-stock boundary\<close>

text \<open>
  C8: In each of the three sale loops (webhook, status check, creation) a product whose
  stock after the decrement equals its \<open>minStock\<close> gets a low-stock notification, and
  one whose stock ends one unit above \<open>minStock\<close> gets none.
\<close>

theorem low_stock_boundary:
  assumes "findUnique_product (products s) (productId item) = Some p"
    and "rq_productId ri = productId item" and "rq_quantity ri = quantity item"
  shows "(stock p - quantity item = minStock p \<longrightarrow>
            notifications (webhook_sale_item t item s) =
              notifications s @ [\<lparr>n_userId = cashierId t, n_title = ''Low Stock Alert'',
                                  n_type = WARNING, n_metadata = LowStockMeta (p_name p) (minStock p)\<rparr>]
          \<and> notifications (check_sale_item t item s) =
              notifications s @ [\<lparr>n_userId = cashierId t, n_title = ''Low Stock Alert'',
                                  n_type = WARNING, n_metadata = LowStockMeta (p_name p) (minStock p)\<rparr>]
          \<and> notifications (snd (create_sale_items (cashierId t) (transactionNumber t) [ri] s)) =
              notifications s @ [\<lparr>n_userId = cashierId t, n_title = ''Low Stock Alert'',
                                  n_type = WARNING, n_metadata = LowStockMeta (p_name p) (minStock p)\<rparr>])
       \<and> (stock p - quantity item = minStock p + 1 \<longrightarrow>
            notifications (webhook_sale_item t item s) = notifications s
          \<and> notifications (check_sale_item t item s) = notifications s
          \<and> notifications (snd (create_sale_items (cashierId t) (transactionNumber t) [ri] s)) =
              notifications s)"
  using assms
  by (simp add: check_sale_item_eq webhook_sale_item_def Let_def inventoryLog_create_def
      notifyLowStock_def)

theorem low_stock_boundary_witness:
  "findUnique_product (products (demo_db PENDING)) ''p1'' = Some demo_kopi
   \<and> stock demo_kopi - 3 = minStock demo_kopi
   \<and> stock demo_kopi - 2 = minStock demo_kopi + 1
   \<and> notifications (webhook_sale_item (demo_transaction PENDING)
         \<lparr>productId = ''p1'', quantity = 3, unitPrice = 10000, totalPrice = 30000\<rparr> (demo_db PENDING)) =
       [\<lparr>n_userId = ''u1'', n_title = ''Low Stock Alert'', n_type = WARNING,
         n_metadata = LowStockMeta ''Kopi'' 5\<rparr>]
   \<and> notifications (webhook_sale_item (demo_transaction PENDING)
         \<lparr>productId = ''p1'', quantity = 2, unitPrice = 10000, totalPrice = 20000\<rparr> (demo_db PENDING)) = []"
proof -
  let ?i3 = "\<lparr>productId = ''p1'', quantity = 3, unitPrice = 10000, totalPrice = 30000\<rparr>"
  let ?i2 = "\<lparr>productId = ''p1'', quantity = 2, unitPrice = 10000, totalPrice = 20000\<rparr>"
  let ?r3 = "\<lparr>rq_productId = ''p1'', rq_quantity = 3, rq_unitPrice = 10000, rq_totalPrice = 30000\<rparr>"
  let ?r2 = "\<lparr>rq_productId = ''p1'', rq_quantity = 2, rq_unitPrice = 10000, rq_totalPrice = 20000\<rparr>"
  have f: "findUnique_product (products (demo_db PENDING)) ''p1'' = Some demo_kopi"
    by (simp add: findUnique_product_def demo_db_def demo_kopi_def)
  have f3: "findUnique_product (products (demo_db PENDING)) (productId ?i3) = Some demo_kopi"
    using f by simp
  have f2: "findUnique_product (products (demo_db PENDING)) (productId ?i2) = Some demo_kopi"
    using f by simp
  have s3: "stock demo_kopi - 3 = minStock demo_kopi" by (simp add: demo_kopi_def)
  have s2: "stock demo_kopi - 2 = minStock demo_kopi + 1" by (simp add: demo_kopi_def)
  have n: "notifications (demo_db PENDING) = []" by (simp add: demo_db_def)
  have t: "cashierId (demo_transaction PENDING) = ''u1''" "p_name demo_kopi = ''Kopi''"
    "minStock demo_kopi = 5"
    by (simp_all add: demo_transaction_def demo_kopi_def)
  have a: "notifications (webhook_sale_item (demo_transaction PENDING) ?i3 (demo_db PENDING)) =
       [\<lparr>n_userId = ''u1'', n_title = ''Low Stock Alert'', n_type = WARNING,
         n_metadata = LowStockMeta ''Kopi'' 5\<rparr>]"
    using low_stock_boundary [OF f3, of ?r3 "demo_transaction PENDING"] s3 by (simp add: n t)
  have b: "notifications (webhook_sale_item (demo_transaction PENDING) ?i2 (demo_db PENDING)) = []"
    using low_stock_boundary [OF f2, of ?r2 "demo_transaction PENDING"] s2 by (simp add: n t)
  show ?thesis using f s3 s2 a b by simp
qed

subsection \<open>The webhook's status mapping\<close>

text \<open>
  C9: When the webhook resolves a transaction, the status it stores for it is PAID for the
  gateway statuses PAID, SETTLED and SUCCEEDED, FAILED for FAILED, EXPIRED for EXPIRED and
  PENDING for any other status text (or none).
\<close>

theorem webhook_status_vocabulary:
  assumes "js_or (b_external_id body) (b_externalId body) = Some ext" and "ext \<noteq> []"
    and "webhook_findFirst (transactions s) ext (b_id body) = Some t"
    and "distinct (map t_id (transactions s))"
  shows "map_option paymentStatus
           (findUnique_transaction (transactions (snd (webhook_POST body s))) (t_id t)) =
         Some (if b_status body = Some ''PAID'' \<or> b_status body = Some ''SETTLED''
                  \<or> b_status body = Some ''SUCCEEDED'' then PAID
               else if b_status body = Some ''FAILED'' then FAILED
               else if b_status body = Some ''EXPIRED'' then EXPIRED
               else PENDING)"
proof -
  let ?f = "\<lambda>r. r\<lparr>paymentStatus := webhook_map_status (b_status body),
                xenditPaymentId := js_or (b_id body) (Some ext)\<rparr>"
  have "findUnique_transaction (transaction_update (t_id t) ?f (transactions s)) (t_id t) = Some (?f t)"
    using assms(3,4) by (rule findUnique_after_update) simp
  then show ?thesis
    by (simp add: webhook_POST_transactions [OF assms(1-3)] webhook_map_status_def)
qed

theorem webhook_status_vocabulary_witness:
  "js_or (b_external_id (demo_body ''SETTLED'')) (b_externalId (demo_body ''SETTLED'')) = Some ''txn-t1-1700000000''
   \<and> webhook_findFirst (transactions (demo_db PENDING)) ''txn-t1-1700000000'' (b_id (demo_body ''SETTLED''))
        = Some (demo_transaction PENDING)
   \<and> distinct (map t_id (transactions (demo_db PENDING)))
   \<and> map_option paymentStatus
        (findUnique_transaction (transactions (snd (webhook_POST (demo_body ''SETTLED'') (demo_db PENDING)))) ''t1'')
       = Some PAID"
proof -
  have a: "js_or (b_external_id (demo_body ''SETTLED'')) (b_externalId (demo_body ''SETTLED'')) = Some ''txn-t1-1700000000''"
    by (simp add: demo_body_def js_or_def truthy_def)
  have b: "''txn-t1-1700000000'' \<noteq> []" by simp
  have c: "webhook_findFirst (transactions (demo_db PENDING)) ''txn-t1-1700000000'' (b_id (demo_body ''SETTLED''))
        = Some (demo_transaction PENDING)"
    by (simp add: demo_find demo_body_def)
  have d: "distinct (map t_id (transactions (demo_db PENDING)))"
    by (simp add: demo_db_def)
  have e: "t_id (demo_transaction PENDING) = ''t1''" by (simp add: demo_transaction_def)
  have f: "b_status (demo_body ''SETTLED'') = Some ''SETTLED''" by (simp add: demo_body_def)
  show ?thesis
    using webhook_status_vocabulary [OF a b c d] a c d by (simp add: e f)
qed

subsection \<open>Low stock in the reports\<close>

text \<open>
  C10: The report's low-stock figures select the active products whose stock is at most
  the constant 5: the overview counts them, the inventory tab lists them (narrowed to a
  category on request, ordered by stock). Neither looks at \<open>minStock\<close>: rewriting every
  product's \<open>minStock\<close> changes neither figure, and on the two example products the
  report and the inventory listing's own \<open>stock <= minStock\<close> filter disagree.
\<close>

theorem reports_low_stock_fixed_threshold:
  "overview_lowStockCount ps = length (filter (\<lambda>p. isActive p \<and> stock p \<le> 5) ps)
   \<and> set (inventory_lowStockProducts cat ps) =
       set (filter (\<lambda>p. isActive p \<and> stock p \<le> 5 \<and> (if truthy cat then Some (categoryId p) = cat else True)) ps)
   \<and> length (inventory_lowStockProducts None ps) = overview_lowStockCount ps
   \<and> sorted (map stock (inventory_lowStockProducts cat ps))
   \<and> overview_lowStockCount (map (\<lambda>p. p\<lparr>minStock := m p\<rparr>) ps) = overview_lowStockCount ps
   \<and> inventory_lowStockProducts cat (map (\<lambda>p. p\<lparr>minStock := m p\<rparr>) ps) =
       map (\<lambda>p. p\<lparr>minStock := m p\<rparr>) (inventory_lowStockProducts cat ps)
   \<and> overview_lowStockCount [demo_teh\<lparr>stock := 6, minStock := 10\<rparr>] = 0
   \<and> inventory_GET_lowStock [demo_teh\<lparr>stock := 6, minStock := 10\<rparr>] = [demo_teh\<lparr>stock := 6, minStock := 10\<rparr>]
   \<and> overview_lowStockCount [demo_teh\<lparr>stock := 4, minStock := 2\<rparr>] = 1
   \<and> inventory_GET_lowStock [demo_teh\<lparr>stock := 4, minStock := 2\<rparr>] = []"
proof -
  have a: "overview_lowStockCount ps = length (filter (\<lambda>p. isActive p \<and> stock p \<le> 5) ps)"
    by (simp add: overview_lowStockCount_def conj_commute)
  have b: "set (inventory_lowStockProducts cat ps) =
       set (filter (\<lambda>p. isActive p \<and> stock p \<le> 5 \<and> (if truthy cat then Some (categoryId p) = cat else True)) ps)"
    by (auto simp: inventory_lowStockProducts_def truthy_def split: option.splits)
  have c: "length (inventory_lowStockProducts None ps) = overview_lowStockCount ps"
    by (simp add: inventory_lowStockProducts_def overview_lowStockCount_def truthy_def)
  have d: "sorted (map stock (inventory_lowStockProducts cat ps))"
    by (simp add: inventory_lowStockProducts_def)
  have e: "overview_lowStockCount (map (\<lambda>p. p\<lparr>minStock := m p\<rparr>) ps) = overview_lowStockCount ps"
    by (simp add: overview_lowStockCount_def filter_map comp_def)
  have f: "inventory_lowStockProducts cat (map (\<lambda>p. p\<lparr>minStock := m p\<rparr>) ps) =
       map (\<lambda>p. p\<lparr>minStock := m p\<rparr>) (inventory_lowStockProducts cat ps)"
    by (simp add: inventory_lowStockProducts_def filter_map comp_def sort_key_map_commute)
  have g: "overview_lowStockCount [demo_teh\<lparr>stock := 6, minStock := 10\<rparr>] = 0"
    "inventory_GET_lowStock [demo_teh\<lparr>stock := 6, minStock := 10\<rparr>] = [demo_teh\<lparr>stock := 6, minStock := 10\<rparr>]"
    "overview_lowStockCount [demo_teh\<lparr>stock := 4, minStock := 2\<rparr>] = 1"
    "inventory_GET_lowStock [demo_teh\<lparr>stock := 4, minStock := 2\<rparr>] = []"
    by (simp_all add: overview_lowStockCount_def inventory_GET_lowStock_def demo_teh_def)
  show ?thesis using a b c d e f g by simp
qed

end
